theory Spec2Isabelle
  imports Complex_Main "HOL-Library.AList"
begin

section \<open>Data model\<close>

text \<open>
  A LangChain \<open>Document\<close> carries its text in \<open>page_content\<close> and a metadata dictionary.
  Exceptions are values: every collaborator call returns \<open>error + 'a\<close>, \<open>Inl\<close> being the
  raised exception. Python floats are modelled as exact rationals: comparison of two
  floats is the comparison of the rationals they denote, while the rounding of a float
  addition is not modelled.
\<close>

datatype error =
    CollaboratorError string
  | KeyError string
  | AttributeError

record document =
  page_content :: string
  metadata :: "(string \<times> string) list"

text \<open>Python's \<open>k or default\<close> on an optional integer: \<open>None\<close> and \<open>0\<close> are falsy.\<close>

definition or_int :: "int option \<Rightarrow> int \<Rightarrow> int" where
  "or_int k d = (case k of None \<Rightarrow> d | Some n \<Rightarrow> if n = 0 then d else n)"

definition or_float :: "rat option \<Rightarrow> rat \<Rightarrow> rat" where
  "or_float x d = (case x of None \<Rightarrow> d | Some t \<Rightarrow> if t = 0 then d else t)"

text \<open>
  The decimal literals of the source and of its documentation denote the nearest
  double: \<open>0.7\<close> is \<open>3152519739159347 / 2^52\<close>, a little below seven tenths.
\<close>

definition float_0_7 :: rat where
  "float_0_7 = 3152519739159347 / 4503599627370496"

definition float_0_9 :: rat where
  "float_0_9 = 8106479329266893 / 9007199254740992"

definition float_0_6 :: rat where
  "float_0_6 = 5404319552844595 / 9007199254740992"

definition float_0_5 :: rat where
  "float_0_5 = 1 / 2"

text \<open>Python's \<open>xs[:k]\<close>: a negative bound counts from the end of the list.\<close>

definition slice_upto :: "int \<Rightarrow> 'a list \<Rightarrow> 'a list" where
  "slice_upto k xs =
     (if 0 \<le> k then take (nat k) xs else take (length xs - nat (- k)) xs)"

section \<open>retrieval/retriever.py: DocumentRetriever\<close>

text \<open>
  The retriever object: the two methods of the vector store it calls, the keyword
  retriever (\<open>None\<close> when no corpus was given or its construction failed), and the two
  configured numbers.
\<close>

record document_retriever =
  similarity_search :: "string \<Rightarrow> int \<Rightarrow> error + document list"
  similarity_search_with_score :: "string \<Rightarrow> int \<Rightarrow> error + (document \<times> rat) list"
  bm25_retriever :: "(string \<Rightarrow> error + document list) option"
  top_k :: int
  similarity_threshold :: rat

text \<open>
  \<open>__init__\<close>: \<open>top_k or int(os.getenv("RETRIEVAL_TOP_K", "5"))\<close> and
  \<open>similarity_threshold or float(os.getenv("SIMILARITY_THRESHOLD", "0.7"))\<close>. The
  environment is given as the parsed value of each variable, \<open>None\<close> when it is unset.
\<close>

definition init_top_k :: "int option \<Rightarrow> int option \<Rightarrow> int" where
  "init_top_k top_k_arg env = or_int top_k_arg (case env of None \<Rightarrow> 5 | Some v \<Rightarrow> v)"

definition init_similarity_threshold :: "rat option \<Rightarrow> rat option \<Rightarrow> rat" where
  "init_similarity_threshold threshold_arg env =
     or_float threshold_arg (case env of None \<Rightarrow> float_0_7 | Some v \<Rightarrow> v)"

definition init_retriever ::
  "(string \<Rightarrow> int \<Rightarrow> error + document list) \<Rightarrow>
   (string \<Rightarrow> int \<Rightarrow> error + (document \<times> rat) list) \<Rightarrow>
   (string \<Rightarrow> error + document list) option \<Rightarrow>
   int option \<Rightarrow> rat option \<Rightarrow> int option \<Rightarrow> rat option \<Rightarrow> document_retriever" where
  "init_retriever search search_scored bm25 top_k_arg threshold_arg env_k env_t =
     \<lparr> similarity_search = search,
       similarity_search_with_score = search_scored,
       bm25_retriever = bm25,
       top_k = init_top_k top_k_arg env_k,
       similarity_threshold = init_similarity_threshold threshold_arg env_t \<rparr>"

subsection \<open>Semantic search only\<close>

definition retrieve_semantic :: "document_retriever \<Rightarrow> string \<Rightarrow> int \<Rightarrow> error + document list" where
  "retrieve_semantic r query k =
     (case similarity_search_with_score r query k of
        Inl e \<Rightarrow> Inl e
      | Inr results \<Rightarrow>
          Inr (map fst (filter (\<lambda>(doc, score). score \<ge> similarity_threshold r) results)))"

subsection \<open>Hybrid search with reciprocal rank fusion\<close>

text \<open>
  \<open>scores\<close> and \<open>doc_map\<close> are Python dictionaries. A dictionary keeps its keys in
  insertion order and an assignment to a present key keeps the key's place, which is
  what \<open>AList.update\<close> does on an association list.
\<close>

type_synonym scores = "(string \<times> rat) list"
type_synonym doc_map = "(string \<times> document) list"

definition c :: nat where
  "c = 60"

text \<open>\<open>scores[key] += v\<close> raises \<open>KeyError\<close> on a missing key.\<close>

definition scores_add :: "string \<Rightarrow> rat \<Rightarrow> scores \<Rightarrow> error + scores" where
  "scores_add key v scores =
     (case map_of scores key of
        None \<Rightarrow> Inl (KeyError key)
      | Some s \<Rightarrow> Inr (AList.update key (s + v) scores))"

fun process_bm25 :: "nat \<Rightarrow> document list \<Rightarrow> scores \<times> doc_map \<Rightarrow> error + scores \<times> doc_map" where
  "process_bm25 rank [] (scores, doc_map) = Inr (scores, doc_map)"
| "process_bm25 rank (doc # docs) (scores, doc_map) =
     (let key = page_content doc;
          doc_map1 = AList.update key doc doc_map;
          scores1 = (if map_of scores key = None then AList.update key 0 scores else scores)
      in case scores_add key (1 / of_nat (c + rank + 1)) scores1 of
           Inl e \<Rightarrow> Inl e
         | Inr scores2 \<Rightarrow> process_bm25 (Suc rank) docs (scores2, doc_map1))"

fun process_semantic :: "nat \<Rightarrow> document list \<Rightarrow> scores \<times> doc_map \<Rightarrow> error + scores \<times> doc_map" where
  "process_semantic rank [] (scores, doc_map) = Inr (scores, doc_map)"
| "process_semantic rank (doc # docs) (scores, doc_map) =
     (let key = page_content doc;
          doc_map1 = (if map_of doc_map key = None then AList.update key doc doc_map else doc_map);
          scores1 = (if map_of scores key = None then AList.update key 0 scores else scores)
      in case scores_add key (1 / of_nat (c + rank + 1)) scores1 of
           Inl e \<Rightarrow> Inl e
         | Inr scores2 \<Rightarrow> process_semantic (Suc rank) docs (scores2, doc_map1))"

text \<open>
  \<open>sorted(scores.items(), key=lambda x: x[1], reverse=True)\<close>: Python's sort is stable
  and stays stable under \<open>reverse=True\<close>, so it is the stable sort by descending score.
\<close>

definition sorted_items :: "scores \<Rightarrow> scores" where
  "sorted_items scores = sort_key (\<lambda>x. - snd x) scores"

text \<open>\<open>[doc_map[content] for content, score in ...]\<close>\<close>

fun lookup_docs :: "doc_map \<Rightarrow> scores \<Rightarrow> error + document list" where
  "lookup_docs doc_map [] = Inr []"
| "lookup_docs doc_map ((content, score) # rest) =
     (case map_of doc_map content of
        None \<Rightarrow> Inl (KeyError content)
      | Some d \<Rightarrow>
          (case lookup_docs doc_map rest of
             Inl e \<Rightarrow> Inl e
           | Inr ds \<Rightarrow> Inr (d # ds)))"

text \<open>Step 3 of \<open>_retrieve_hybrid\<close>: the fusion of the two result lists.\<close>

definition rrf_merge :: "document list \<Rightarrow> document list \<Rightarrow> int \<Rightarrow> error + document list" where
  "rrf_merge bm25_docs vector_results k =
     (case process_bm25 0 bm25_docs ([], []) of
        Inl e \<Rightarrow> Inl e
      | Inr st1 \<Rightarrow>
          (case process_semantic 0 vector_results st1 of
             Inl e \<Rightarrow> Inl e
           | Inr (scores, doc_map) \<Rightarrow>
               lookup_docs doc_map (slice_upto k (sorted_items scores))))"

definition retrieve_hybrid :: "document_retriever \<Rightarrow> string \<Rightarrow> int \<Rightarrow> error + document list" where
  "retrieve_hybrid r query k =
     (case bm25_retriever r of
        None \<Rightarrow> Inl AttributeError
      | Some invoke \<Rightarrow>
          (case invoke query of
             Inl e \<Rightarrow> Inl e
           | Inr bm25_docs \<Rightarrow>
               (case similarity_search r query k of
                  Inl e \<Rightarrow> Inl e
                | Inr vector_results \<Rightarrow> rrf_merge bm25_docs vector_results k)))"

definition retrieve :: "document_retriever \<Rightarrow> string \<Rightarrow> int option \<Rightarrow> error + document list" where
  "retrieve r query k_arg =
     (let k = or_int k_arg (top_k r)
      in if bm25_retriever r \<noteq> None then retrieve_hybrid r query k
         else retrieve_semantic r query k)"

section \<open>Strings\<close>

text \<open>
  A Python \<open>str\<close> is modelled as a \<open>string\<close>. \<open>lower\<close> maps the ASCII capitals to
  their small letters and leaves every other character as it is; \<open>strip\<close> removes the
  ASCII characters for which \<open>str.isspace\<close> holds.
\<close>

definition lower_char :: "char \<Rightarrow> char" where
  "lower_char ch =
     (case map_of (zip ''ABCDEFGHIJKLMNOPQRSTUVWXYZ'' ''abcdefghijklmnopqrstuvwxyz'') ch of
        Some l \<Rightarrow> l
      | None \<Rightarrow> ch)"

definition lower :: "string \<Rightarrow> string" where
  "lower s = map lower_char s"

definition isspace :: "char \<Rightarrow> bool" where
  "isspace ch = (let n = (of_char ch :: nat) in (9 \<le> n \<and> n \<le> 13) \<or> (28 \<le> n \<and> n \<le> 32))"

definition lstrip :: "string \<Rightarrow> string" where
  "lstrip s = dropWhile isspace s"

definition strip :: "string \<Rightarrow> string" where
  "strip s = rev (dropWhile isspace (rev (dropWhile isspace s)))"

text \<open>\<open>s.lstrip(chars)\<close> drops the leading characters that occur in \<open>chars\<close>.\<close>

definition lstrip_chars :: "string \<Rightarrow> string \<Rightarrow> string" where
  "lstrip_chars chars s = dropWhile (\<lambda>ch. ch \<in> set chars) s"

text \<open>\<open>sub in s\<close>\<close>

fun starts_with :: "string \<Rightarrow> string \<Rightarrow> bool" where
  "starts_with [] s = True"
| "starts_with (a # sub) [] = False"
| "starts_with (a # sub) (b # s) = (a = b \<and> starts_with sub s)"

fun contains :: "string \<Rightarrow> string \<Rightarrow> bool" where
  "contains sub [] = (sub = [])"
| "contains sub (b # s) = (starts_with sub (b # s) \<or> contains sub s)"

text \<open>\<open>s.split(sep)\<close> for a separator of one character, and \<open>sep.join(parts)\<close>.\<close>

fun split :: "char \<Rightarrow> string \<Rightarrow> string list" where
  "split sep [] = [[]]"
| "split sep (ch # s) =
     (if ch = sep then [] # split sep s
      else (case split sep s of part # parts \<Rightarrow> (ch # part) # parts | [] \<Rightarrow> [[ch]]))"

fun join :: "string \<Rightarrow> string list \<Rightarrow> string" where
  "join sep [] = []"
| "join sep [part] = part"
| "join sep (part # parts) = part @ sep @ join sep parts"

section \<open>eval/relevance_grader.py, eval/hallucination_grader.py, agent/research.py\<close>

text \<open>
  Each of the three classes holds its \<open>SYSTEM_PROMPT\<close> and a chat model. \<open>llm.invoke\<close>
  takes the contents of the system and the human message and returns the content of the
  response, or raises. Every function below returns, next to its result, the list of
  the invocations it made of the model.
\<close>

type_synonym messages = "string list"

record llm_component =
  SYSTEM_PROMPT :: string
  llm :: "messages \<Rightarrow> error + string"

definition grade_messages :: "llm_component \<Rightarrow> string \<Rightarrow> document list \<Rightarrow> messages" where
  "grade_messages g question documents =
     (let context_preview =
            join ''\<newline>\<newline>'' (map (\<lambda>d. take 500 (page_content d)) (take 3 documents));
          user_prompt =
            ''Retrieved document snippets:\<newline>        '' @ context_preview @
            ''\<newline>        \<newline>        User Question: '' @ question @
            ''\<newline>        \<newline>        Are these documents relevant to the question? (yes/no)''
      in [SYSTEM_PROMPT g, user_prompt])"

definition grade :: "llm_component \<Rightarrow> string \<Rightarrow> document list \<Rightarrow> string \<times> messages list" where
  "grade g question documents =
     (if documents = [] then (''irrelevant'', [])
      else
        let messages = grade_messages g question documents
        in case llm g messages of
             Inr content \<Rightarrow>
               (let grade = lower (strip content)
                in if contains ''yes'' grade then (''relevant'', [messages])
                   else (''irrelevant'', [messages]))
           | Inl e \<Rightarrow> (''relevant'', [messages]))"

definition groundedness_messages :: "llm_component \<Rightarrow> string \<Rightarrow> document list \<Rightarrow> messages" where
  "groundedness_messages g answer context_docs =
     (let context_text = join ''\<newline>\<newline>'' (map page_content context_docs);
          prompt =
            ''Context:\<newline>'' @ context_text @ ''\<newline>\<newline>Answer:\<newline>'' @ answer @
            ''\<newline>\<newline>Is the answer grounded in the context? (yes/no):''
      in [SYSTEM_PROMPT g, prompt])"

definition check_groundedness :: "llm_component \<Rightarrow> string \<Rightarrow> document list \<Rightarrow> bool \<times> messages list" where
  "check_groundedness g answer context_docs =
     (let messages = groundedness_messages g answer context_docs
      in case llm g messages of
           Inr content \<Rightarrow> (contains ''yes'' (lower (strip content)), [messages])
         | Inl e \<Rightarrow> (True, [messages]))"

definition clean_query :: "string \<Rightarrow> string" where
  "clean_query q = lstrip_chars ''123. '' (lstrip_chars ''- '' (strip q))"

definition planner_messages :: "llm_component \<Rightarrow> string \<Rightarrow> messages" where
  "planner_messages g question =
     [SYSTEM_PROMPT g,
      ''User Question: '' @ question @ ''\<newline>\<newline>Generate 3 search queries:'']"

definition generate_queries :: "llm_component \<Rightarrow> string \<Rightarrow> string list" where
  "generate_queries g question =
     (let messages = planner_messages g question
      in case llm g messages of
           Inr response \<Rightarrow>
             (let content = strip response;
                  queries = map clean_query (filter (\<lambda>q. strip q \<noteq> []) (split CHR 0x0A content))
              in take 3 queries)
         | Inl e \<Rightarrow> [question])"

section \<open>agent/graph.py: AgentGraph\<close>

text \<open>
  The workflow state. \<open>retry_count\<close>, \<open>research_queries\<close>, \<open>is_web\<close> and
  \<open>hallucination_grade\<close> are read with \<open>state.get\<close> and may be absent. \<open>documents\<close> and
  \<open>answer\<close> are read with \<open>state[...]\<close>, always after the node that writes them. The
  keys \<open>messages\<close>, \<open>context\<close>, \<open>sources\<close> and \<open>context_used\<close> are written and never
  read by a node or an edge, and are left out.
\<close>

record agent_state =
  question :: string
  documents :: "document list"
  retry_count :: "int option"
  answer :: string
  research_queries :: "string list option"
  is_web :: "bool option"
  hallucination_grade :: "string option"

record web_result =
  res_title :: string
  res_href :: string
  res_body :: string
  res_query :: string

text \<open>
  The collaborators of the graph. \<open>generator\<close> is \<open>generate_answer(...)["answer"]\<close>, which
  raises when its model does; \<open>web_search_tool\<close> is \<open>WebSearchTool.search\<close>, which catches
  every exception; \<open>research_synthesizer\<close> is \<open>format_results\<close> followed by
  \<open>ResearchSynthesizer.synthesize\<close>, which returns a text also when its model raises.
\<close>

record agent_graph =
  retriever :: document_retriever
  generator :: "string \<Rightarrow> document list \<Rightarrow> error + string"
  web_search_tool :: "string list \<Rightarrow> web_result list"
  grader :: llm_component
  relevance_grader :: llm_component
  research_refiner :: llm_component
  research_synthesizer :: "string \<Rightarrow> document list \<Rightarrow> string"

datatype node =
    Retrieve
  | GradeDocuments
  | Generate
  | TransformQuery
  | PlanResearch
  | WebSearch
  | SynthesizeResearch
  | CheckHallucination
  | END

definition get_retry_count :: "agent_state \<Rightarrow> int" where
  "get_retry_count state = (case retry_count state of None \<Rightarrow> 0 | Some n \<Rightarrow> n)"

definition retrieve_node :: "agent_graph \<Rightarrow> agent_state \<Rightarrow> error + agent_state" where
  "retrieve_node a state =
     (case retrieve (retriever a) (question state) None of
        Inl e \<Rightarrow> Inl e
      | Inr docs \<Rightarrow> Inr (state\<lparr>documents := docs, question := question state\<rparr>))"

definition grade_documents :: "agent_graph \<Rightarrow> agent_state \<Rightarrow> agent_state" where
  "grade_documents a state =
     (let grade = fst (grade (relevance_grader a) (question state) (documents state))
      in if grade = ''irrelevant''
         then state\<lparr>documents := [], retry_count := Some (get_retry_count state)\<rparr>
         else state\<lparr>documents := documents state, retry_count := Some (get_retry_count state)\<rparr>)"

definition max_retries :: int where
  "max_retries = 1"

definition decide_to_generate :: "agent_state \<Rightarrow> node" where
  "decide_to_generate state =
     (if documents state = [] then
        (if get_retry_count state < max_retries then TransformQuery else PlanResearch)
      else Generate)"

definition transform_query :: "agent_state \<Rightarrow> agent_state" where
  "transform_query state =
     state\<lparr>question := question state @ '' overview details'',
           retry_count := Some (get_retry_count state + 1)\<rparr>"

definition generate :: "agent_graph \<Rightarrow> agent_state \<Rightarrow> error + agent_state" where
  "generate a state =
     (case generator a (question state) (documents state) of
        Inl e \<Rightarrow> Inl e
      | Inr ans \<Rightarrow> Inr (state\<lparr>answer := ans\<rparr>))"

definition plan_research :: "agent_graph \<Rightarrow> agent_state \<Rightarrow> agent_state" where
  "plan_research a state =
     state\<lparr>research_queries := Some (generate_queries (research_refiner a) (question state))\<rparr>"

definition web_document :: "web_result \<Rightarrow> document" where
  "web_document res =
     \<lparr> page_content = res_title res @ ''\<newline>'' @ res_body res,
       metadata = [(''filename'', ''Web Search''), (''page'', res_href res), (''type'', ''web''),
                   (''query'', res_query res)] \<rparr>"

definition web_search :: "agent_graph \<Rightarrow> agent_state \<Rightarrow> agent_state" where
  "web_search a state =
     (let queries = (case research_queries state of
                       None \<Rightarrow> [question state]
                     | Some qs \<Rightarrow> if qs = [] then [question state] else qs);
          results = web_search_tool a queries
      in state\<lparr>documents := map web_document results, is_web := Some True\<rparr>)"

definition synthesize_research :: "agent_graph \<Rightarrow> agent_state \<Rightarrow> agent_state" where
  "synthesize_research a state =
     state\<lparr>answer := research_synthesizer a (question state) (documents state)\<rparr>"

definition refusal_indicators :: "string list" where
  "refusal_indicators =
     [''i don'' @ [CHR 0x27] @ ''t have enough information'',
      ''context does not contain'',
      ''information is not available'',
      ''cannot provide an answer'',
      ''cannot answer'',
      ''answer based on the context provided'']"

text \<open>\<open>check_hallucination\<close>: the grade it stores, and the invocations of the judge.\<close>

definition check_hallucination_grade :: "agent_graph \<Rightarrow> agent_state \<Rightarrow> string \<times> messages list" where
  "check_hallucination_grade a state =
     (if documents state = [] then (''grounded'', [])
      else if list_ex (\<lambda>indicator. contains indicator (lower (answer state))) refusal_indicators
      then (''hallucinated'', [])
      else (case check_groundedness (grader a) (answer state) (documents state) of
              (is_grounded, calls) \<Rightarrow>
                if is_grounded then (''grounded'', calls) else (''hallucinated'', calls)))"

definition check_hallucination :: "agent_graph \<Rightarrow> agent_state \<Rightarrow> agent_state" where
  "check_hallucination a state =
     state\<lparr>hallucination_grade := Some (fst (check_hallucination_grade a state))\<rparr>"

definition decide_after_check :: "agent_state \<Rightarrow> node" where
  "decide_after_check state =
     (let grade = (case hallucination_grade state of None \<Rightarrow> ''grounded'' | Some g \<Rightarrow> g)
      in if grade = ''grounded'' then END
         else if (case is_web state of None \<Rightarrow> False | Some b \<Rightarrow> b) then END
         else PlanResearch)"

text \<open>
  One step of the compiled graph: run the node, merge its update into the state and
  follow the edge. An exception raised in a node ends the run.
\<close>

fun step :: "agent_graph \<Rightarrow> node \<Rightarrow> agent_state \<Rightarrow> error + node \<times> agent_state" where
  "step a Retrieve state =
     (case retrieve_node a state of Inl e \<Rightarrow> Inl e | Inr s \<Rightarrow> Inr (GradeDocuments, s))"
| "step a GradeDocuments state =
     (let s = grade_documents a state in Inr (decide_to_generate s, s))"
| "step a TransformQuery state = Inr (Retrieve, transform_query state)"
| "step a Generate state =
     (case generate a state of Inl e \<Rightarrow> Inl e | Inr s \<Rightarrow> Inr (CheckHallucination, s))"
| "step a CheckHallucination state =
     (let s = check_hallucination a state in Inr (decide_after_check s, s))"
| "step a PlanResearch state = Inr (WebSearch, plan_research a state)"
| "step a WebSearch state = Inr (SynthesizeResearch, web_search a state)"
| "step a SynthesizeResearch state = Inr (END, synthesize_research a state)"
| "step a END state = Inr (END, state)"

datatype outcome = Finished agent_state | Raised error | RecursionLimit

text \<open>
  The run from a node, for at most \<open>limit\<close> steps: the nodes entered, each with the
  state it was entered in, and the outcome.
\<close>

fun run :: "agent_graph \<Rightarrow> nat \<Rightarrow> node \<Rightarrow> agent_state \<Rightarrow> (node \<times> agent_state) list \<times> outcome" where
  "run a limit END state = ([], Finished state)"
| "run a 0 n state = ([], RecursionLimit)"
| "run a (Suc limit) n state =
     (case step a n state of
        Inl e \<Rightarrow> ([(n, state)], Raised e)
      | Inr (n', s) \<Rightarrow> (case run a limit n' s of (trace, out) \<Rightarrow> ((n, state) # trace, out)))"

section \<open>Notions of the specification\<close>





subsection \<open>The two loops without their error branches\<close>







section \<open>Example inputs\<close>

definition doc_a :: document where
  "doc_a = \<lparr> page_content = ''alpha'', metadata = [(''source'', ''report.pdf'')] \<rparr>"

definition doc_b :: document where
  "doc_b = \<lparr> page_content = ''beta'', metadata = [] \<rparr>"

definition doc_c :: document where
  "doc_c = \<lparr> page_content = ''gamma'', metadata = [] \<rparr>"

definition doc_d :: document where
  "doc_d = \<lparr> page_content = ''delta'', metadata = [] \<rparr>"

definition keyword_ok :: "string \<Rightarrow> error + document list" where
  "keyword_ok q = Inr [doc_a, doc_b]"

definition keyword_down :: "string \<Rightarrow> error + document list" where
  "keyword_down q = Inl (CollaboratorError ''keyword index unavailable'')"

definition vector_ok :: "string \<Rightarrow> int \<Rightarrow> error + document list" where
  "vector_ok q k = Inr [doc_c, doc_d]"

definition vector_down :: "string \<Rightarrow> int \<Rightarrow> error + document list" where
  "vector_down q k = Inl (CollaboratorError ''vector store unavailable'')"

definition vector_scored :: "string \<Rightarrow> int \<Rightarrow> error + (document \<times> rat) list" where
  "vector_scored q k = Inr [(doc_a, float_0_9), (doc_b, float_0_6), (doc_c, float_0_5)]"

definition vector_scored_low :: "string \<Rightarrow> int \<Rightarrow> error + (document \<times> rat) list" where
  "vector_scored_low q k = Inr [(doc_b, float_0_6), (doc_c, float_0_5)]"


definition keyword_down_retriever :: document_retriever where
  "keyword_down_retriever =
     init_retriever vector_ok vector_scored (Some keyword_down) None None None None"

definition vector_down_retriever :: document_retriever where
  "vector_down_retriever =
     init_retriever vector_down vector_scored (Some keyword_ok) None None None None"

definition vector_only_retriever :: document_retriever where
  "vector_only_retriever = init_retriever vector_ok vector_scored None None None None None"

definition vector_only_low_retriever :: document_retriever where
  "vector_only_low_retriever =
     init_retriever vector_ok vector_scored_low None None None None None"


definition judge_says :: "string \<Rightarrow> llm_component" where
  "judge_says response = \<lparr> SYSTEM_PROMPT = ''Return only yes or no.'', llm = (\<lambda>m. Inr response) \<rparr>"

definition judge_down :: llm_component where
  "judge_down =
     \<lparr> SYSTEM_PROMPT = ''Return only yes or no.'',
       llm = (\<lambda>m. Inl (CollaboratorError ''model unavailable'')) \<rparr>"

definition planner_says :: "string \<Rightarrow> llm_component" where
  "planner_says response =
     \<lparr> SYSTEM_PROMPT = ''Return ONLY the list of queries, one per line.'',
       llm = (\<lambda>m. Inr response) \<rparr>"

definition refusal_answer :: string where
  "refusal_answer = ''I cannot answer based on the context provided.''"

definition initial_state :: "string \<Rightarrow> agent_state" where
  "initial_state q =
     \<lparr> question = q, documents = [], retry_count = None, answer = [],
       research_queries = None, is_web = None, hallucination_grade = None \<rparr>"

definition no_evidence_agent :: agent_graph where
  "no_evidence_agent =
     \<lparr> retriever = vector_only_low_retriever,
       generator = (\<lambda>q docs. Inr ''Revenue grew.''),
       web_search_tool = (\<lambda>queries. []),
       grader = judge_says ''yes'',
       relevance_grader = judge_says ''yes'',
       research_refiner = planner_says ''total revenue Q4'',
       research_synthesizer = (\<lambda>q docs. ''No web search results found.'') \<rparr>"

section \<open>Reciprocal rank fusion: the loops and the sort\<close>































section \<open>Claims on the retriever\<close>







text \<open>
  Claim C2 fails: when the keyword search raises and the vector search would answer,
  \<open>retrieve\<close> raises.
\<close>

theorem retrieve_collaborator_failure_counterexample:
  "similarity_search keyword_down_retriever ''revenue'' 5 = Inr [doc_c, doc_d] \<and>
   retrieve keyword_down_retriever ''revenue'' None
     = Inl (CollaboratorError ''keyword index unavailable'') \<and>
   retrieve keyword_down_retriever ''revenue'' None \<noteq> Inr [doc_c, doc_d]"
  by (simp add: retrieve_def retrieve_hybrid_def keyword_down_retriever_def init_retriever_def
      keyword_down_def vector_ok_def or_int_def init_top_k_def)

text \<open>
  Claim C2, amended. With a keyword index configured, an exception of the keyword search
  is the result of \<open>retrieve\<close>, and so is an exception of the vector search when the
  keyword search has answered: no degraded result is returned.
\<close>

theorem retrieve_propagates_failure:
  assumes "bm25_retriever r = Some invoke"
  shows "(invoke q = Inl e \<longrightarrow> retrieve r q k = Inl e) \<and>
         (invoke q = Inr kw \<and> similarity_search r q (or_int k (top_k r)) = Inl e
            \<longrightarrow> retrieve r q k = Inl e)"
  using assms by (simp add: retrieve_def retrieve_hybrid_def)

theorem retrieve_propagates_failure_witness:
  "bm25_retriever keyword_down_retriever = Some keyword_down \<and>
   keyword_down ''revenue'' = Inl (CollaboratorError ''keyword index unavailable'') \<and>
   retrieve keyword_down_retriever ''revenue'' None
     = Inl (CollaboratorError ''keyword index unavailable'') \<and>
   bm25_retriever vector_down_retriever = Some keyword_ok \<and>
   keyword_ok ''revenue'' = Inr [doc_a, doc_b] \<and>
   similarity_search vector_down_retriever ''revenue'' (or_int None (top_k vector_down_retriever))
     = Inl (CollaboratorError ''vector store unavailable'') \<and>
   retrieve vector_down_retriever ''revenue'' None
     = Inl (CollaboratorError ''vector store unavailable'')"
proof -
  have a1: "bm25_retriever keyword_down_retriever = Some keyword_down"
    by (simp add: keyword_down_retriever_def init_retriever_def)
  have a2: "keyword_down ''revenue'' = Inl (CollaboratorError ''keyword index unavailable'')"
    by (simp add: keyword_down_def)
  have b1: "bm25_retriever vector_down_retriever = Some keyword_ok"
    by (simp add: vector_down_retriever_def init_retriever_def)
  have b2: "keyword_ok ''revenue'' = Inr [doc_a, doc_b]"
    by (simp add: keyword_ok_def)
  have b3: "similarity_search vector_down_retriever ''revenue''
              (or_int None (top_k vector_down_retriever))
            = Inl (CollaboratorError ''vector store unavailable'')"
    by (simp add: vector_down_retriever_def init_retriever_def vector_down_def)
  from retrieve_propagates_failure[OF a1, of "''revenue''"
      "CollaboratorError ''keyword index unavailable''" None] a2
  have "retrieve keyword_down_retriever ''revenue'' None
     = Inl (CollaboratorError ''keyword index unavailable'')" by simp
  moreover from retrieve_propagates_failure[OF b1, of "''revenue''"
      "CollaboratorError ''vector store unavailable''" None "[doc_a, doc_b]"] b2 b3
  have "retrieve vector_down_retriever ''revenue'' None
     = Inl (CollaboratorError ''vector store unavailable'')" by simp
  ultimately show ?thesis using a1 a2 b1 b2 b3 by simp
qed

text \<open>
  Claim C7. Without a keyword index, \<open>retrieve\<close> returns the documents of the vector
  search whose score is not below the floor, in their order; the empty list when every
  score is below it; one document for the scores \<open>0.9, 0.6, 0.5\<close> and the floor \<open>0.7\<close>,
  which is the floor when none is configured.
\<close>

theorem retrieve_vector_only_floor:
  assumes "bm25_retriever r = None"
    and "similarity_search_with_score r q (or_int k (top_k r)) = Inr results"
  shows "retrieve r q k
           = Inr (map fst (filter (\<lambda>(doc, score). \<not> score < similarity_threshold r) results)) \<and>
         ((\<forall>(doc, score) \<in> set results. score < similarity_threshold r)
            \<longrightarrow> retrieve r q k = Inr []) \<and>
         (map snd results = [float_0_9, float_0_6, float_0_5] \<and> similarity_threshold r = float_0_7
            \<longrightarrow> retrieve r q k = Inr [fst (hd results)]) \<and>
         init_similarity_threshold None None = float_0_7"
proof -
  have eq: "retrieve r q k
      = Inr (map fst (filter (\<lambda>(doc, score). \<not> score < similarity_threshold r) results))"
    using assms by (simp add: retrieve_def retrieve_semantic_def not_less)
  have "(\<forall>(doc, score) \<in> set results. score < similarity_threshold r)
            \<longrightarrow> retrieve r q k = Inr []"
    unfolding eq by (auto simp: filter_empty_conv)
  moreover have "map snd results = [float_0_9, float_0_6, float_0_5] \<and> similarity_threshold r = float_0_7
            \<longrightarrow> retrieve r q k = Inr [fst (hd results)]"
    unfolding eq
    by (auto simp: float_0_9_def float_0_6_def float_0_5_def float_0_7_def)
  moreover have "init_similarity_threshold None None = float_0_7"
    by (simp add: init_similarity_threshold_def or_float_def float_0_7_def)
  ultimately show ?thesis using eq by blast
qed

theorem retrieve_vector_only_floor_witness:
  "bm25_retriever vector_only_retriever = None \<and>
   similarity_search_with_score vector_only_retriever ''revenue''
       (or_int None (top_k vector_only_retriever))
     = Inr [(doc_a, float_0_9), (doc_b, float_0_6), (doc_c, float_0_5)] \<and>
   similarity_threshold vector_only_retriever = float_0_7 \<and>
   retrieve vector_only_retriever ''revenue'' None = Inr [doc_a] \<and>
   bm25_retriever vector_only_low_retriever = None \<and>
   similarity_search_with_score vector_only_low_retriever ''revenue''
       (or_int None (top_k vector_only_low_retriever))
     = Inr [(doc_b, float_0_6), (doc_c, float_0_5)] \<and>
   float_0_6 < similarity_threshold vector_only_low_retriever \<and>
   float_0_5 < similarity_threshold vector_only_low_retriever \<and>
   retrieve vector_only_low_retriever ''revenue'' None = Inr []"
proof -
  have a1: "bm25_retriever vector_only_retriever = None"
    by (simp add: vector_only_retriever_def init_retriever_def)
  have a2: "similarity_search_with_score vector_only_retriever ''revenue''
       (or_int None (top_k vector_only_retriever))
     = Inr [(doc_a, float_0_9), (doc_b, float_0_6), (doc_c, float_0_5)]"
    by (simp add: vector_only_retriever_def init_retriever_def vector_scored_def)
  have a3: "similarity_threshold vector_only_retriever = float_0_7"
    by (simp add: vector_only_retriever_def init_retriever_def init_similarity_threshold_def
        or_float_def float_0_7_def)
  have b1: "bm25_retriever vector_only_low_retriever = None"
    by (simp add: vector_only_low_retriever_def init_retriever_def)
  have b2: "similarity_search_with_score vector_only_low_retriever ''revenue''
       (or_int None (top_k vector_only_low_retriever))
     = Inr [(doc_b, float_0_6), (doc_c, float_0_5)]"
    by (simp add: vector_only_low_retriever_def init_retriever_def vector_scored_low_def)
  have b3: "similarity_threshold vector_only_low_retriever = float_0_7"
    by (simp add: vector_only_low_retriever_def init_retriever_def init_similarity_threshold_def
        or_float_def float_0_7_def)
  have b4: "float_0_6 < float_0_7" "float_0_5 < float_0_7"
    by (simp_all add: float_0_6_def float_0_5_def float_0_7_def)
  from retrieve_vector_only_floor[OF a1 a2] a3
  have "retrieve vector_only_retriever ''revenue'' None = Inr [doc_a]"
    by (simp add: float_0_9_def float_0_6_def float_0_5_def float_0_7_def)
  moreover from retrieve_vector_only_floor[OF b1 b2] b3
  have "retrieve vector_only_low_retriever ''revenue'' None = Inr []"
    by (simp add: float_0_9_def float_0_6_def float_0_5_def float_0_7_def)
  ultimately show ?thesis using a1 a2 b1 b2 b4 unfolding a3 b3 by simp
qed


section \<open>Claims on the graders and the planner\<close>

lemma split_no_sep: "part \<in> set (split sep s) \<Longrightarrow> sep \<notin> set part"
proof (induction s arbitrary: part)
  case Nil
  then show ?case by simp
next
  case (Cons ch s)
  then show ?case
    by (cases "split sep s") (auto split: if_splits)
qed

lemma set_strip: "set (strip s) \<subseteq> set s"
proof
  fix x
  assume "x \<in> set (strip s)"
  then have "x \<in> set (dropWhile isspace (rev (dropWhile isspace s)))"
    by (simp add: strip_def)
  then have "x \<in> set (dropWhile isspace s)"
    using set_dropWhileD by fastforce
  then show "x \<in> set s" by (rule set_dropWhileD)
qed

lemma set_clean_query: "set (clean_query l) \<subseteq> set l"
proof -
  have "set (clean_query l) \<subseteq> set (strip l)"
    unfolding clean_query_def lstrip_chars_def
    by (meson set_dropWhileD subsetI)
  then show ?thesis using set_strip[of l] by blast
qed

lemma clean_query_head: "clean_query l = [] \<or> hd (clean_query l) \<notin> set ''123. ''"
  unfolding clean_query_def lstrip_chars_def
  using hd_dropWhile[of "\<lambda>ch. ch \<in> set ''123. ''"] by blast

text \<open>
  Claim C9. The planner returns at most three sub-queries. When its model raises it
  returns the list holding the question alone. When the model answers, the sub-queries
  are the first three non-blank lines of the stripped answer, each stripped, then
  without its leading characters of \<open>"- "\<close>, then without its leading characters of
  \<open>"123. "\<close>: no sub-query spans two lines, and none starts with one of \<open>1 2 3 .\<close> or a
  blank.
\<close>

theorem generate_queries_plan:
  "length (generate_queries g q) \<le> 3 \<and>
   (llm g (planner_messages g q) = Inl e \<longrightarrow> generate_queries g q = [q]) \<and>
   (llm g (planner_messages g q) = Inr response \<longrightarrow>
      generate_queries g q
        = take 3 (map clean_query
            (filter (\<lambda>l. strip l \<noteq> []) (split CHR 0x0A (strip response)))) \<and>
      (\<forall>x \<in> set (generate_queries g q).
          CHR 0x0A \<notin> set x \<and> (x = [] \<or> hd x \<notin> set ''123. '')))"
proof -
  have len: "length (generate_queries g q) \<le> 3"
    by (cases "llm g (planner_messages g q)") (simp_all add: generate_queries_def)
  have fail: "llm g (planner_messages g q) = Inl e \<longrightarrow> generate_queries g q = [q]"
    by (simp add: generate_queries_def)
  have ok: "llm g (planner_messages g q) = Inr response \<longrightarrow>
      generate_queries g q
        = take 3 (map clean_query
            (filter (\<lambda>l. strip l \<noteq> []) (split CHR 0x0A (strip response))))"
    by (simp add: generate_queries_def)
  have each: "\<forall>x \<in> set (take 3 (map clean_query
            (filter (\<lambda>l. strip l \<noteq> []) (split CHR 0x0A (strip response))))).
          CHR 0x0A \<notin> set x \<and> (x = [] \<or> hd x \<notin> set ''123. '')"
  proof
    fix x
    assume "x \<in> set (take 3 (map clean_query
            (filter (\<lambda>l. strip l \<noteq> []) (split CHR 0x0A (strip response)))))"
    then have "x \<in> set (map clean_query
            (filter (\<lambda>l. strip l \<noteq> []) (split CHR 0x0A (strip response))))"
      by (rule in_set_takeD)
    then obtain l where l: "l \<in> set (split CHR 0x0A (strip response))" "x = clean_query l"
      by auto
    from l(1) have "CHR 0x0A \<notin> set l" by (rule split_no_sep)
    with l(2) set_clean_query[of l] have "CHR 0x0A \<notin> set x" by blast
    moreover have "x = [] \<or> hd x \<notin> set ''123. ''"
      unfolding l(2) by (rule clean_query_head)
    ultimately show "CHR 0x0A \<notin> set x \<and> (x = [] \<or> hd x \<notin> set ''123. '')" by simp
  qed
  from len fail ok each show ?thesis by simp
qed

theorem generate_queries_plan_witness:
  "llm judge_down (planner_messages judge_down ''revenue'') = Inl (CollaboratorError ''model unavailable'') \<and>
   generate_queries judge_down ''revenue'' = [''revenue''] \<and>
   llm (planner_says ''- total revenue Q4\<newline>1. revenue by quarter\<newline>\<newline>2. annual report\<newline>3. guidance'')
       (planner_messages (planner_says ''- total revenue Q4\<newline>1. revenue by quarter\<newline>\<newline>2. annual report\<newline>3. guidance'') ''revenue'')
     = Inr ''- total revenue Q4\<newline>1. revenue by quarter\<newline>\<newline>2. annual report\<newline>3. guidance'' \<and>
   generate_queries (planner_says ''- total revenue Q4\<newline>1. revenue by quarter\<newline>\<newline>2. annual report\<newline>3. guidance'') ''revenue''
     = [''total revenue Q4'', ''revenue by quarter'', ''annual report'']"
proof -
  let ?r = "''- total revenue Q4\<newline>1. revenue by quarter\<newline>\<newline>2. annual report\<newline>3. guidance''"
  have a: "llm judge_down (planner_messages judge_down ''revenue'')
      = Inl (CollaboratorError ''model unavailable'')"
    by (simp add: judge_down_def)
  have b: "llm (planner_says ?r) (planner_messages (planner_says ?r) ''revenue'') = Inr ?r"
    by (simp add: planner_says_def)
  have s: "strip ?r = ?r"
    by (simp add: strip_def isspace_def)
  from generate_queries_plan[of judge_down "''revenue''" "CollaboratorError ''model unavailable''"] a
  have 1: "generate_queries judge_down ''revenue'' = [''revenue'']" by simp
  from generate_queries_plan[of "planner_says ?r" "''revenue''" _ ?r] b
  have "generate_queries (planner_says ?r) ''revenue''
        = take 3 (map clean_query (filter (\<lambda>l. strip l \<noteq> []) (split CHR 0x0A (strip ?r))))"
    by blast
  also have "\<dots> = [''total revenue Q4'', ''revenue by quarter'', ''annual report'']"
    unfolding s by (simp add: clean_query_def lstrip_chars_def strip_def isspace_def)
  finally show ?thesis using a b 1 by simp
qed

text \<open>
  Claim C3 fails for an ambiguous judgment: the answer \<open>maybe\<close>, neither a yes nor a no,
  grades the evidence \<open>irrelevant\<close>.
\<close>

theorem grade_ambiguous_counterexample:
  "\<not> contains ''yes'' (lower (strip ''maybe'')) \<and> \<not> contains ''no'' (lower (strip ''maybe'')) \<and>
   llm (judge_says ''maybe'') (grade_messages (judge_says ''maybe'') ''revenue'' [doc_a]) = Inr ''maybe'' \<and>
   fst (grade (judge_says ''maybe'') ''revenue'' [doc_a]) = ''irrelevant''"
  by (simp add: grade_def judge_says_def strip_def isspace_def lower_def lower_char_def)

text \<open>
  Claim C3, amended. For a non-empty evidence list the grader returns \<open>relevant\<close> when the
  judge raises, and when the judge answers it returns \<open>relevant\<close> if the answer, stripped
  and in lower case, contains \<open>yes\<close>, and \<open>irrelevant\<close> for every other answer.
\<close>

theorem grade_relevant_iff:
  assumes "docs \<noteq> []"
  shows "(llm g (grade_messages g q docs) = Inl e \<longrightarrow> fst (grade g q docs) = ''relevant'') \<and>
         (llm g (grade_messages g q docs) = Inr content \<longrightarrow>
            fst (grade g q docs)
              = (if contains ''yes'' (lower (strip content)) then ''relevant'' else ''irrelevant''))"
  using assms by (simp add: grade_def)

theorem grade_relevant_iff_witness:
  "[doc_a] \<noteq> [] \<and>
   llm judge_down (grade_messages judge_down ''revenue'' [doc_a])
     = Inl (CollaboratorError ''model unavailable'') \<and>
   fst (grade judge_down ''revenue'' [doc_a]) = ''relevant'' \<and>
   llm (judge_says '' Yes. '') (grade_messages (judge_says '' Yes. '') ''revenue'' [doc_a])
     = Inr '' Yes. '' \<and>
   fst (grade (judge_says '' Yes. '') ''revenue'' [doc_a]) = ''relevant'' \<and>
   llm (judge_says ''No'') (grade_messages (judge_says ''No'') ''revenue'' [doc_a]) = Inr ''No'' \<and>
   fst (grade (judge_says ''No'') ''revenue'' [doc_a]) = ''irrelevant''"
proof -
  have ne: "[doc_a] \<noteq> []" by simp
  have a: "llm judge_down (grade_messages judge_down ''revenue'' [doc_a])
     = Inl (CollaboratorError ''model unavailable'')"
    by (simp add: judge_down_def)
  have b: "llm (judge_says '' Yes. '') (grade_messages (judge_says '' Yes. '') ''revenue'' [doc_a])
     = Inr '' Yes. ''"
    by (simp add: judge_says_def)
  have c: "llm (judge_says ''No'') (grade_messages (judge_says ''No'') ''revenue'' [doc_a]) = Inr ''No''"
    by (simp add: judge_says_def)
  from grade_relevant_iff[OF ne, of judge_down "''revenue''"
      "CollaboratorError ''model unavailable''"] a
  have 1: "fst (grade judge_down ''revenue'' [doc_a]) = ''relevant''" by simp
  from grade_relevant_iff[OF ne, of "judge_says '' Yes. ''" "''revenue''" _ "'' Yes. ''"] b
  have 2: "fst (grade (judge_says '' Yes. '') ''revenue'' [doc_a]) = ''relevant''"
    by (simp add: strip_def isspace_def lower_def lower_char_def)
  from grade_relevant_iff[OF ne, of "judge_says ''No''" "''revenue''" _ "''No''"] c
  have 3: "fst (grade (judge_says ''No'') ''revenue'' [doc_a]) = ''irrelevant''"
    by (simp add: strip_def isspace_def lower_def lower_char_def)
  from ne a b c 1 2 3 show ?thesis by simp
qed

text \<open>
  Claim C5. On a \<open>hallucinated\<close> verdict the edge after the groundedness check leads to
  \<open>END\<close> when the web flag is set, and to \<open>PlanResearch\<close> when it is false or absent.
\<close>

theorem hallucinated_after_web_ends:
  assumes "hallucination_grade s = Some ''hallucinated''"
  shows "(is_web s = Some True \<longrightarrow> decide_after_check s = END) \<and>
         (is_web s = Some False \<or> is_web s = None \<longrightarrow> decide_after_check s = PlanResearch)"
  using assms by (auto simp: decide_after_check_def)

theorem hallucinated_after_web_ends_witness:
  "hallucination_grade ((initial_state ''revenue'')\<lparr>is_web := Some True, hallucination_grade := Some ''hallucinated''\<rparr>)
     = Some ''hallucinated'' \<and>
   decide_after_check ((initial_state ''revenue'')\<lparr>is_web := Some True, hallucination_grade := Some ''hallucinated''\<rparr>) = END \<and>
   hallucination_grade ((initial_state ''revenue'')\<lparr>hallucination_grade := Some ''hallucinated''\<rparr>)
     = Some ''hallucinated'' \<and>
   is_web ((initial_state ''revenue'')\<lparr>hallucination_grade := Some ''hallucinated''\<rparr>) = None \<and>
   decide_after_check ((initial_state ''revenue'')\<lparr>hallucination_grade := Some ''hallucinated''\<rparr>) = PlanResearch"
proof -
  let ?s1 = "(initial_state ''revenue'')\<lparr>is_web := Some True, hallucination_grade := Some ''hallucinated''\<rparr>"
  let ?s2 = "(initial_state ''revenue'')\<lparr>hallucination_grade := Some ''hallucinated''\<rparr>"
  have a: "hallucination_grade ?s1 = Some ''hallucinated''" by simp
  have a': "is_web ?s1 = Some True" by simp
  have b: "hallucination_grade ?s2 = Some ''hallucinated''" by simp
  have b': "is_web ?s2 = None" by (simp add: initial_state_def)
  from hallucinated_after_web_ends[OF a] a' have 1: "decide_after_check ?s1 = END" by blast
  from hallucinated_after_web_ends[OF b] b' have 2: "decide_after_check ?s2 = PlanResearch" by blast
  from a b b' 1 2 show ?thesis by simp
qed

text \<open>
  Claim C6 fails on an empty evidence list: the refusal
  \<open>I cannot answer based on the context provided.\<close> is then graded \<open>grounded\<close>.
\<close>

theorem refusal_without_evidence_counterexample:
  "contains ''cannot answer'' (lower refusal_answer) \<and>
   ''cannot answer'' \<in> set refusal_indicators \<and>
   check_hallucination_grade no_evidence_agent
       ((initial_state ''revenue'')\<lparr>documents := [], answer := refusal_answer\<rparr>)
     = (''grounded'', [])"
  by (simp add: check_hallucination_grade_def refusal_answer_def lower_def lower_char_def
      refusal_indicators_def)

text \<open>
  Claim C6, amended. When the evidence list is not empty and the answer in lower case
  contains one of the refusal phrases, the check grades it \<open>hallucinated\<close> and does not
  invoke the judge.
\<close>

theorem refusal_fast_path:
  assumes "documents s \<noteq> []"
    and "\<exists>indicator \<in> set refusal_indicators. contains indicator (lower (answer s))"
  shows "check_hallucination_grade a s = (''hallucinated'', []) \<and>
         hallucination_grade (check_hallucination a s) = Some ''hallucinated''"
  using assms
  by (simp add: check_hallucination_grade_def check_hallucination_def list_ex_iff)

theorem refusal_fast_path_witness:
  "documents ((initial_state ''revenue'')\<lparr>documents := [doc_a], answer := refusal_answer\<rparr>) \<noteq> [] \<and>
   ''cannot answer'' \<in> set refusal_indicators \<and>
   contains ''cannot answer''
     (lower (answer ((initial_state ''revenue'')\<lparr>documents := [doc_a], answer := refusal_answer\<rparr>))) \<and>
   check_hallucination_grade no_evidence_agent
       ((initial_state ''revenue'')\<lparr>documents := [doc_a], answer := refusal_answer\<rparr>)
     = (''hallucinated'', [])"
proof -
  let ?s = "(initial_state ''revenue'')\<lparr>documents := [doc_a], answer := refusal_answer\<rparr>"
  have d: "documents ?s \<noteq> []" by simp
  have m: "''cannot answer'' \<in> set refusal_indicators"
    by (simp add: refusal_indicators_def)
  have c: "contains ''cannot answer'' (lower (answer ?s))"
    by (simp add: refusal_answer_def lower_def lower_char_def)
  from m c have "\<exists>indicator \<in> set refusal_indicators. contains indicator (lower (answer ?s))"
    by blast
  from refusal_fast_path[OF d this, of no_evidence_agent] d m c show ?thesis by blast
qed

text \<open>
  Claim C10. With an empty evidence list the check grades every answer \<open>grounded\<close>
  without invoking the judge, a refusal included; so a \<open>hallucinated\<close> grade is only
  given on a non-empty evidence list.
\<close>

theorem empty_evidence_is_grounded:
  "(documents s = [] \<longrightarrow>
      check_hallucination_grade a s = (''grounded'', []) \<and>
      hallucination_grade (check_hallucination a s) = Some ''grounded'') \<and>
   (fst (check_hallucination_grade a s) = ''hallucinated'' \<longrightarrow> documents s \<noteq> [])"
  by (auto simp: check_hallucination_grade_def check_hallucination_def)

theorem empty_evidence_is_grounded_witness:
  "documents ((initial_state ''revenue'')\<lparr>answer := refusal_answer\<rparr>) = [] \<and>
   contains ''cannot answer'' (lower (answer ((initial_state ''revenue'')\<lparr>answer := refusal_answer\<rparr>))) \<and>
   check_hallucination_grade no_evidence_agent ((initial_state ''revenue'')\<lparr>answer := refusal_answer\<rparr>)
     = (''grounded'', []) \<and>
   fst (check_hallucination_grade no_evidence_agent
       ((initial_state ''revenue'')\<lparr>documents := [doc_b], answer := refusal_answer\<rparr>)) = ''hallucinated'' \<and>
   documents ((initial_state ''revenue'')\<lparr>documents := [doc_b], answer := refusal_answer\<rparr>) \<noteq> []"
proof -
  let ?s = "(initial_state ''revenue'')\<lparr>answer := refusal_answer\<rparr>"
  let ?t = "(initial_state ''revenue'')\<lparr>documents := [doc_b], answer := refusal_answer\<rparr>"
  have d: "documents ?s = []" by (simp add: initial_state_def)
  have c: "contains ''cannot answer'' (lower (answer ?s))"
    by (simp add: refusal_answer_def lower_def lower_char_def)
  have h: "fst (check_hallucination_grade no_evidence_agent ?t) = ''hallucinated''"
    by (simp add: check_hallucination_grade_def refusal_answer_def lower_def lower_char_def
        refusal_indicators_def)
  from empty_evidence_is_grounded[of ?s no_evidence_agent] d
  have 1: "check_hallucination_grade no_evidence_agent ?s = (''grounded'', [])" by blast
  from empty_evidence_is_grounded[of ?t no_evidence_agent] h
  have 2: "documents ?t \<noteq> []" by blast
  from d c h 1 2 show ?thesis by simp
qed


section \<open>Claims on the controller\<close>

lemma grade_empty: "grade g q [] = (''irrelevant'', [])"
  by (simp add: grade_def)

lemma grade_documents_irrelevant:
  assumes "documents s = [] \<or> fst (grade (relevance_grader a) (question s) (documents s)) = ''irrelevant''"
  shows "grade_documents a s = s\<lparr>documents := [], retry_count := Some (get_retry_count s)\<rparr>"
proof -
  from assms have "fst (grade (relevance_grader a) (question s) (documents s)) = ''irrelevant''"
    by (auto simp: grade_empty)
  then show ?thesis by (simp add: grade_documents_def)
qed

text \<open>
  Claim C4. A run from \<open>Retrieve\<close> with no retry counted yet, in which both retrievals
  succeed and each yields no evidence or evidence graded \<open>irrelevant\<close>, finishes within
  eight steps, and enters exactly the nodes \<open>Retrieve\<close>, \<open>GradeDocuments\<close>,
  \<open>TransformQuery\<close>, \<open>Retrieve\<close>, \<open>GradeDocuments\<close>, \<open>PlanResearch\<close>, then \<open>WebSearch\<close>
  and \<open>SynthesizeResearch\<close>. \<open>TransformQuery\<close> is entered once; it raises the retry count
  from \<open>0\<close> to \<open>1\<close> and appends \<open>" overview details"\<close> to the question.
\<close>

theorem retry_bound_trace:
  assumes "get_retry_count s0 = 0"
    and "retrieve (retriever a) (question s0) None = Inr docs1"
    and "docs1 = [] \<or> fst (grade (relevance_grader a) (question s0) docs1) = ''irrelevant''"
    and "retrieve (retriever a) (question s0 @ '' overview details'') None = Inr docs2"
    and "docs2 = [] \<or>
         fst (grade (relevance_grader a) (question s0 @ '' overview details'') docs2) = ''irrelevant''"
    and "8 \<le> limit"
  shows "\<exists>t final.
           run a limit Retrieve s0 = (t, Finished final) \<and>
           map fst t = [Retrieve, GradeDocuments, TransformQuery, Retrieve, GradeDocuments,
                        PlanResearch, WebSearch, SynthesizeResearch] \<and>
           length (filter (\<lambda>n. n = TransformQuery) (map fst t)) = 1 \<and>
           retry_count (snd (t ! 2)) = Some 0 \<and>
           retry_count (snd (t ! 3)) = Some (get_retry_count (snd (t ! 2)) + 1) \<and>
           question (snd (t ! 3)) = question (snd (t ! 2)) @ '' overview details'' \<and>
           question (snd (t ! 2)) = question s0 \<and>
           retry_count final = Some 1"
proof -
  define s1 where "s1 = s0\<lparr>documents := docs1, question := question s0\<rparr>"
  define s2 where "s2 = s1\<lparr>documents := [], retry_count := Some 0\<rparr>"
  define s3 where "s3 = s2\<lparr>question := question s0 @ '' overview details'', retry_count := Some 1\<rparr>"
  define s4 where "s4 = s3\<lparr>documents := docs2, question := question s3\<rparr>"
  define s5 where "s5 = s4\<lparr>documents := [], retry_count := Some 1\<rparr>"
  define s6 where "s6 = plan_research a s5"
  define s7 where "s7 = web_search a s6"
  define s8 where "s8 = synthesize_research a s7"
  have st1: "step a Retrieve s0 = Inr (GradeDocuments, s1)"
    using assms(2) by (simp add: retrieve_node_def s1_def)
  have g1: "grade_documents a s1 = s2"
    using assms(1,3) grade_documents_irrelevant[of s1 a]
    by (simp add: s1_def s2_def get_retry_count_def)
  have st2: "step a GradeDocuments s1 = Inr (TransformQuery, s2)"
    by (simp add: g1 decide_to_generate_def s2_def get_retry_count_def max_retries_def)
  have st3: "step a TransformQuery s2 = Inr (Retrieve, s3)"
    by (simp add: transform_query_def s3_def s2_def s1_def get_retry_count_def)
  have q3: "question s3 = question s0 @ '' overview details''"
    by (simp add: s3_def)
  have st4: "step a Retrieve s3 = Inr (GradeDocuments, s4)"
    using assms(4) by (simp add: retrieve_node_def s4_def q3)
  have g4: "grade_documents a s4 = s5"
    using assms(5) grade_documents_irrelevant[of s4 a]
    by (simp add: s4_def s5_def q3 get_retry_count_def s3_def)
  have st5: "step a GradeDocuments s4 = Inr (PlanResearch, s5)"
    by (simp add: g4 decide_to_generate_def s5_def get_retry_count_def max_retries_def)
  have st6: "step a PlanResearch s5 = Inr (WebSearch, s6)"
    by (simp add: s6_def)
  have st7: "step a WebSearch s6 = Inr (SynthesizeResearch, s7)"
    by (simp add: s7_def)
  have st8: "step a SynthesizeResearch s7 = Inr (END, s8)"
    by (simp add: s8_def)
  from assms(6) obtain m0 where "limit = 8 + m0"
    by (auto simp: le_iff_add)
  then obtain m where m: "limit = Suc (Suc (Suc (Suc (Suc (Suc (Suc (Suc m)))))))"
    by simp
  have r: "run a limit Retrieve s0 =
      ([(Retrieve, s0), (GradeDocuments, s1), (TransformQuery, s2), (Retrieve, s3),
        (GradeDocuments, s4), (PlanResearch, s5), (WebSearch, s6), (SynthesizeResearch, s7)],
       Finished s8)"
    unfolding m by (simp del: step.simps add: st1 st2 st3 st4 st5 st6 st7 st8)
  have f: "retry_count s8 = Some 1"
    by (simp add: s8_def s7_def s6_def s5_def synthesize_research_def web_search_def
        plan_research_def Let_def)
  have "retry_count s2 = Some 0" "retry_count s3 = Some (get_retry_count s2 + 1)"
    "question s3 = question s2 @ '' overview details''" "question s2 = question s0"
    by (simp_all add: s3_def s2_def s1_def get_retry_count_def)
  with r f show ?thesis by simp
qed

lemma no_evidence_retrieve: "retrieve (retriever no_evidence_agent) q None = Inr []"
  by (simp add: no_evidence_agent_def retrieve_def retrieve_semantic_def
      vector_only_low_retriever_def init_retriever_def vector_scored_low_def
      init_similarity_threshold_def or_float_def float_0_7_def float_0_6_def float_0_5_def)

theorem retry_bound_trace_witness:
  "get_retry_count (initial_state ''revenue'') = 0 \<and>
   retrieve (retriever no_evidence_agent) (question (initial_state ''revenue'')) None = Inr [] \<and>
   retrieve (retriever no_evidence_agent)
      (question (initial_state ''revenue'') @ '' overview details'') None = Inr [] \<and>
   (8 :: nat) \<le> 25 \<and>
   map fst (fst (run no_evidence_agent 25 Retrieve (initial_state ''revenue'')))
     = [Retrieve, GradeDocuments, TransformQuery, Retrieve, GradeDocuments,
        PlanResearch, WebSearch, SynthesizeResearch] \<and>
   question (snd (fst (run no_evidence_agent 25 Retrieve (initial_state ''revenue'')) ! 3))
     = ''revenue overview details''"
proof -
  have h1: "get_retry_count (initial_state ''revenue'') = 0"
    by (simp add: get_retry_count_def initial_state_def)
  have h2: "retrieve (retriever no_evidence_agent) (question (initial_state ''revenue'')) None
      = Inr []"
    by (rule no_evidence_retrieve)
  have h3: "[] = [] \<or> fst (grade (relevance_grader no_evidence_agent)
      (question (initial_state ''revenue'')) []) = ''irrelevant''" by simp
  have h4: "retrieve (retriever no_evidence_agent)
      (question (initial_state ''revenue'') @ '' overview details'') None = Inr []"
    by (rule no_evidence_retrieve)
  have h5: "[] = [] \<or> fst (grade (relevance_grader no_evidence_agent)
      (question (initial_state ''revenue'') @ '' overview details'') []) = ''irrelevant''" by simp
  have h6: "(8 :: nat) \<le> 25" by simp
  have q: "question (initial_state ''revenue'') = ''revenue''"
    by (simp add: initial_state_def)
  from retry_bound_trace[OF h1 h2 h3 h4 h5 h6]
  obtain t final where
    "run no_evidence_agent 25 Retrieve (initial_state ''revenue'') = (t, Finished final)"
    "map fst t = [Retrieve, GradeDocuments, TransformQuery, Retrieve, GradeDocuments,
                  PlanResearch, WebSearch, SynthesizeResearch]"
    "question (snd (t ! 3)) = question (snd (t ! 2)) @ '' overview details''"
    "question (snd (t ! 2)) = question (initial_state ''revenue'')"
    by (elim exE conjE)
  then have "map fst (fst (run no_evidence_agent 25 Retrieve (initial_state ''revenue'')))
     = [Retrieve, GradeDocuments, TransformQuery, Retrieve, GradeDocuments,
        PlanResearch, WebSearch, SynthesizeResearch]"
    "question (snd (fst (run no_evidence_agent 25 Retrieve (initial_state ''revenue'')) ! 3))
     = ''revenue overview details''"
    by (simp_all add: q)
  with h1 h2 h4 h6 show ?thesis by blast
qed

end
